theory Spec2Isabelle
  imports Complex_Main "HOL-Library.Sublist"
begin

section \<open>Python and library primitives used by \<^verbatim>\<open>goft.py\<close>\<close>

text \<open>
  \<^verbatim>\<open>forecast_position\<close> is one sequential function over three libraries: \<^verbatim>\<open>requests\<close>
  (a session with a cookie jar, responses with a status and a byte body), \<^verbatim>\<open>astropy.units\<close>
  (the \<^verbatim>\<open>quantity_input\<close> check and the conversion to degrees) and \<^verbatim>\<open>astropy.table\<close>
  (the CSV reader). Byte strings and text are both \<open>string\<close> here: one \<open>char\<close> per byte,
  and the text the function handles is ASCII.
\<close>

subsection \<open>\<^verbatim>\<open>str(r.content)\<close>: the text of a bytes object\<close>

text \<open>
  \<^verbatim>\<open>r.content\<close> of \<^verbatim>\<open>requests\<close> is a \<^verbatim>\<open>bytes\<close> object, and in Python 3
  \<^verbatim>\<open>str\<close> of a bytes object is its \<^verbatim>\<open>repr\<close>: the letter b, a quote, the bytes with \<^verbatim>\<open>\\\<close>, the quote,
  tab, newline, carriage return and every non-printable byte escaped, and the quote again.
  The quote is \<^verbatim>\<open>'\<close> unless the bytes hold a \<^verbatim>\<open>'\<close> and no \<^verbatim>\<open>"\<close>.
\<close>

definition hexdigit :: "nat \<Rightarrow> char" where
  "hexdigit n = ''0123456789abcdef'' ! n"

definition repr_byte :: "char \<Rightarrow> char \<Rightarrow> string" where
  "repr_byte quote c =
     (if c = quote \<or> c = CHR 0x5C then [CHR 0x5C, c]
      else if c = CHR 0x09 then [CHR 0x5C, CHR ''t'']
      else if c = CHR 0x0A then [CHR 0x5C, CHR ''n'']
      else if c = CHR 0x0D then [CHR 0x5C, CHR ''r'']
      else if (of_char c :: nat) < 0x20 \<or> 0x7F \<le> (of_char c :: nat)
      then [CHR 0x5C, CHR ''x'', hexdigit ((of_char c :: nat) div 16),
            hexdigit ((of_char c :: nat) mod 16)]
      else [c])"

definition repr_quote :: "string \<Rightarrow> char" where
  "repr_quote b = (if CHR 0x27 \<in> set b \<and> CHR 0x22 \<notin> set b then CHR 0x22 else CHR 0x27)"

definition bytes_str :: "string \<Rightarrow> string" where
  "bytes_str b =
     CHR ''b'' # repr_quote b # concat (map (repr_byte (repr_quote b)) b) @ [repr_quote b]"

subsection \<open>\<^verbatim>\<open>split()\<close>, indexing, \<^verbatim>\<open>split("<")[0]\<close> and \<^verbatim>\<open>in\<close>\<close>

text \<open>
  \<^verbatim>\<open>str.split()\<close> with no argument cuts at runs of whitespace and drops empty pieces.
  \<open>is_space\<close> is the whitespace of a Python \<^verbatim>\<open>str\<close> among the code points below 256;
  \<open>is_space_bytes\<close> is the whitespace of \<^verbatim>\<open>bytes.split()\<close>, the one a reading of the
  body as raw bytes would use.
\<close>

definition is_space :: "char \<Rightarrow> bool" where
  "is_space c = (c \<in> set [CHR 0x09, CHR 0x0A, CHR 0x0B, CHR 0x0C, CHR 0x0D, CHR 0x1C,
                           CHR 0x1D, CHR 0x1E, CHR 0x1F, CHR 0x20, CHR 0x85, CHR 0xA0])"

definition is_space_bytes :: "char \<Rightarrow> bool" where
  "is_space_bytes c = (c \<in> set [CHR 0x09, CHR 0x0A, CHR 0x0B, CHR 0x0C, CHR 0x0D, CHR 0x20])"

fun split_acc :: "(char \<Rightarrow> bool) \<Rightarrow> string \<Rightarrow> string \<Rightarrow> string list" where
  "split_acc sp w [] = (if w = [] then [] else [w])"
| "split_acc sp w (c # cs) =
     (if sp c then (if w = [] then split_acc sp [] cs else w # split_acc sp [] cs)
      else split_acc sp (w @ [c]) cs)"

definition str_split :: "string \<Rightarrow> string list" where
  "str_split s = split_acc is_space [] s"

definition bytes_split :: "string \<Rightarrow> string list" where
  "bytes_split s = split_acc is_space_bytes [] s"

text \<open>\<^verbatim>\<open>xs[i]\<close> for \<open>i \<ge> 0\<close>: \<open>None\<close> is Python's IndexError.\<close>

definition getitem :: "'a list \<Rightarrow> nat \<Rightarrow> 'a option" where
  "getitem xs i = (if i < length xs then Some (xs ! i) else None)"

text \<open>\<^verbatim>\<open>s.split(sep)[0]\<close>: the text before the first \<open>sep\<close>, all of \<open>s\<close> when there is none.\<close>

definition before_first :: "char \<Rightarrow> string \<Rightarrow> string" where
  "before_first sep s = takeWhile (\<lambda>c. c \<noteq> sep) s"

text \<open>\<^verbatim>\<open>pat in s\<close> on text is \<^term>\<open>sublist pat s\<close>.\<close>

subsection \<open>\<^verbatim>\<open>requests\<close>: requests, responses, the session\<close>

datatype http_method = GET | POST

datatype 'f form_value = IntV int | StrV string | FloatV 'f

record 'f request =
  rq_method :: http_method
  rq_url :: string
  rq_params :: "(string \<times> string) list"
  rq_data :: "(string \<times> 'f form_value) list"
  rq_headers :: "(string \<times> string) list"
  rq_files :: "(string \<times> string) list"

record response =
  status_code :: nat
  content :: string
  set_cookie :: "(string \<times> string) list"

text \<open>
  \<^verbatim>\<open>r.ok\<close> is true unless \<^verbatim>\<open>r.raise_for_status()\<close> raises, which it does for the
  statuses 400 to 599.
\<close>

definition ok :: "response \<Rightarrow> bool" where
  "ok r = (status_code r < 400 \<or> 600 \<le> status_code r)"

record session =
  cookies :: "(string \<times> string) list"

fun jar_set :: "string \<times> string \<Rightarrow> (string \<times> string) list \<Rightarrow> (string \<times> string) list" where
  "jar_set (k, v) jar = (k, v) # filter (\<lambda>kv. fst kv \<noteq> k) jar"

text \<open>The session keeps the cookies a response sets.\<close>

definition receive :: "response \<Rightarrow> session \<Rightarrow> session" where
  "receive r s = s\<lparr>cookies := fold jar_set (set_cookie r) (cookies s)\<rparr>"

text \<open>
  The remote service: what it answers to a request, given the requests sent before.
  \<open>None\<close> is a request that raises in \<^verbatim>\<open>requests\<close> (no connection, a timeout).
\<close>

type_synonym 'f service = "'f request list \<Rightarrow> 'f request \<Rightarrow> response option"

definition send :: "'f service \<Rightarrow> session \<Rightarrow> 'f request list \<Rightarrow> 'f request
    \<Rightarrow> (response \<times> session) option" where
  "send svc s sent rq =
     (case svc sent rq of None \<Rightarrow> None | Some r \<Rightarrow> Some (r, receive r s))"

subsection \<open>\<^verbatim>\<open>astropy\<close>: quantities and the table reader\<close>

text \<open>
  A quantity is a value with a unit. The library is a parameter of the model:
  \<open>is_equivalent_deg\<close> is \<^verbatim>\<open>unit.is_equivalent(u.deg)\<close>, the test \<^verbatim>\<open>quantity_input\<close>
  makes; \<open>to_deg\<close> is \<^verbatim>\<open>q.to(u.deg).value\<close>, a float (the type \<open>'f\<close>);
  \<open>table_read\<close> is \<^verbatim>\<open>Table.read(BytesIO(bytes), format="csv")\<close>, \<open>None\<close> when it raises.
\<close>

record ('u, 'f) quantity =
  q_value :: 'f
  q_unit :: 'u

record ('u, 'f, 't) astropy =
  is_equivalent_deg :: "'u \<Rightarrow> bool"
  to_deg :: "('u, 'f) quantity \<Rightarrow> 'f"
  table_read :: "string \<Rightarrow> 't option"

section \<open>\<^verbatim>\<open>goft.py\<close>\<close>

datatype error =
    UnitsError string
  | RequestException
  | HTTPError nat
  | AssertionError string
  | IndexError
  | KeyError string
  | TableReadError

datatype 't returned = Forecast 't | FullOutput 't string session

definition host :: string where
  "host = ''https://gaia.esac.esa.int''"

definition default_observing_period_from :: string where
  "default_observing_period_from = ''2014-09-26T00:00:00''"

definition default_observing_period_to :: string where
  "default_observing_period_to = ''2019-06-07T00:00:00''"

text \<open>Line 60: the warm-up \<^verbatim>\<open>session.get("{}/gost/".format(_host))\<close>.\<close>

definition warmup_request :: "'f request" where
  "warmup_request =
     \<lparr>rq_method = GET, rq_url = host @ ''/gost/'', rq_params = [], rq_data = [],
      rq_headers = [], rq_files = []\<rparr>"

text \<open>Lines 62 to 80: \<^verbatim>\<open>data\<close>, \<^verbatim>\<open>files\<close>, \<^verbatim>\<open>headers\<close> and the POST.\<close>

definition submit_request :: "'f \<Rightarrow> 'f \<Rightarrow> string \<Rightarrow> string \<Rightarrow> 'f request" where
  "submit_request ra_deg dec_deg period_from period_to =
     \<lparr>rq_method = POST, rq_url = host @ ''/gost/GostServlet'', rq_params = [],
      rq_data = [(''serviceCode'', IntV 1),
                 (''srcname'', StrV ''''),
                 (''inputmode'', StrV ''single''),
                 (''srcra'', FloatV ra_deg),
                 (''srcdec'', FloatV dec_deg),
                 (''from'', StrV period_from),
                 (''to'', StrV period_to)],
      rq_headers = [(''cache'', ''false''), (''processData'', ''false'')],
      rq_files = [(''csvfilename'', '''')]\<rparr>"

text \<open>Lines 95 to 97: the export GET.\<close>

definition export_request :: "string \<Rightarrow> 'f request" where
  "export_request identifier =
     \<lparr>rq_method = GET, rq_url = host @ ''/gost/export.jsp'',
      rq_params = [(''id'', identifier), (''format'', ''csv'')], rq_data = [],
      rq_headers = [], rq_files = []\<rparr>"

text \<open>Lines 85 to 89: the assertion, then the scrape of the result id.\<close>

definition parse_result_id :: "string \<Rightarrow> error + string" where
  "parse_result_id body =
     (if sublist ''error'' (bytes_str body)
      then Inl (AssertionError (''An error occurred: '' @ bytes_str body))
      else case getitem (str_split (bytes_str body)) 3 of
             None \<Rightarrow> Inl IndexError
           | Some tok \<Rightarrow> Inr (before_first (CHR ''<'') tok))"

text \<open>
  The function. It returns what the call returns or raises, and the requests it sent, in
  order. The decorator of line 18 checks \<open>ra\<close>, then \<open>dec\<close>, before the body runs.
\<close>

definition forecast_position ::
  "('u, 'f, 't) astropy \<Rightarrow> 'f service \<Rightarrow> ('u, 'f) quantity \<Rightarrow> ('u, 'f) quantity
    \<Rightarrow> string option \<Rightarrow> string option \<Rightarrow> bool \<Rightarrow> (error + 't returned) \<times> 'f request list" where
  "forecast_position lib svc ra dec observation_period_from observation_period_to full_output =
     (if \<not> is_equivalent_deg lib (q_unit ra) then (Inl (UnitsError ''ra''), [])
      else if \<not> is_equivalent_deg lib (q_unit dec) then (Inl (UnitsError ''dec''), [])
      else
        let period_from = (case observation_period_from of
                             None \<Rightarrow> default_observing_period_from | Some s \<Rightarrow> s);
            period_to = (case observation_period_to of
                           None \<Rightarrow> default_observing_period_to | Some s \<Rightarrow> s);
            rq0 = warmup_request;
            rq1 = submit_request (to_deg lib ra) (to_deg lib dec) period_from period_to
        in case send svc \<lparr>cookies = []\<rparr> [] rq0 of
             None \<Rightarrow> (Inl RequestException, [rq0])
           | Some (r0, session0) \<Rightarrow>
         (case send svc session0 [rq0] rq1 of
             None \<Rightarrow> (Inl RequestException, [rq0, rq1])
           | Some (r, session1) \<Rightarrow>
         if \<not> ok r then (Inl (HTTPError (status_code r)), [rq0, rq1])
         else
         (case parse_result_id (content r) of
             Inl e \<Rightarrow> (Inl e, [rq0, rq1])
           | Inr result_id \<Rightarrow>
         (case map_of (cookies session1) ''JSESSIONID'' of
             None \<Rightarrow> (Inl (KeyError ''JSESSIONID''), [rq0, rq1])
           | Some sid \<Rightarrow>
         let identifier = sid @ ''/'' @ result_id;
             rq2 = export_request identifier
         in
         (case send svc session1 [rq0, rq1] rq2 of
             None \<Rightarrow> (Inl RequestException, [rq0, rq1, rq2])
           | Some (result, session2) \<Rightarrow>
         (case table_read lib (content result) of
             None \<Rightarrow> (Inl TableReadError, [rq0, rq1, rq2])
           | Some forecast \<Rightarrow>
               (Inr (if full_output then FullOutput forecast identifier session2
                     else Forecast forecast),
                [rq0, rq1, rq2])))))))"

text \<open>The table of a returned value, whichever its shape.\<close>

fun table_of :: "'t returned \<Rightarrow> 't" where
  "table_of (Forecast t) = t"
| "table_of (FullOutput t identifier s) = t"

text \<open>
  \<^verbatim>\<open>requests\<close> encodes a request as multipart/form-data exactly when \<^verbatim>\<open>files\<close> is not
  empty.
\<close>

definition is_multipart :: "'f request \<Rightarrow> bool" where
  "is_multipart rq = (rq_files rq \<noteq> [])"

section \<open>The specification's vocabulary\<close>

text \<open>
  The specification names three kinds of failure: InvalidInput (coordinate unit
  mismatch), RemoteServiceError (non-OK HTTP status or error marker in the response body)
  and ParseError (unexpected token structure when extracting the result identifier, or
  malformed CSV). \<open>taxonomy\<close> gives the kind of each exception the function can raise; a
  request that fails in the network layer and a missing cookie have no kind there.
\<close>

datatype spec_error = InvalidInput | RemoteServiceError | ParseError

fun taxonomy :: "error \<Rightarrow> spec_error option" where
  "taxonomy (UnitsError arg) = Some InvalidInput"
| "taxonomy (HTTPError status) = Some RemoteServiceError"
| "taxonomy (AssertionError msg) = Some RemoteServiceError"
| "taxonomy IndexError = Some ParseError"
| "taxonomy TableReadError = Some ParseError"
| "taxonomy RequestException = None"
| "taxonomy (KeyError k) = None"

text \<open>
  The result identifier as the specification words it: the fourth whitespace-delimited
  token of the raw body, trimmed at the first \<^verbatim>\<open><\<close>; \<open>None\<close> when there is no fourth
  token.
\<close>

definition claimed_result_id :: "string \<Rightarrow> string option" where
  "claimed_result_id body =
     map_option (before_first (CHR ''<'')) (getitem (bytes_split body) 3)"

section \<open>A sample library and a mocked service, for concrete runs\<close>

text \<open>
  A table as far as the runs below need one: the column names and the rows, a cell an
  integer or a text.
\<close>

datatype cell = IntCell int | StrCell string

record csv_table =
  colnames :: "string list"
  rows :: "cell list list"

text \<open>
  The reader of the sample library is a mock, as the service is. It knows one payload,
  \<^verbatim>\<open>a,b\n1,2\n\<close>, and gives for it the table \<^verbatim>\<open>Table.read(..., format="csv")\<close> reads from
  it, the columns a and b and the single row (1, 2); on any other payload it raises.
\<close>

definition mock_table_read :: "string \<Rightarrow> csv_table option" where
  "mock_table_read bytes =
     (if bytes = ''a,b\<newline>1,2\<newline>''
      then Some \<lparr>colnames = [''a'', ''b''], rows = [[IntCell 1, IntCell 2]]\<rparr>
      else None)"

text \<open>
  A sample library with three units, exact arithmetic for the values, and the mocked
  reader.
\<close>

datatype sample_unit = Degree | Arcmin | Metre

definition sample_astropy :: "(sample_unit, real, csv_table) astropy" where
  "sample_astropy =
     \<lparr>is_equivalent_deg = (\<lambda>u. u \<noteq> Metre),
      to_deg = (\<lambda>q. case q_unit q of
                        Degree \<Rightarrow> q_value q | Arcmin \<Rightarrow> q_value q / 60 | Metre \<Rightarrow> q_value q),
      table_read = mock_table_read\<rparr>"

text \<open>
  A mocked service: the landing page sets the session cookie, the servlet answers with the
  given status and body, and the export answers with the given bytes.
\<close>

definition mock_service :: "nat \<Rightarrow> string \<Rightarrow> string \<Rightarrow> 'f service" where
  "mock_service status body csv sent rq =
     (if rq_url rq = host @ ''/gost/''
      then Some \<lparr>status_code = 200, content = [], set_cookie = [(''JSESSIONID'', ''S1'')]\<rparr>
      else if rq_url rq = host @ ''/gost/GostServlet''
      then Some \<lparr>status_code = status, content = body, set_cookie = []\<rparr>
      else Some \<lparr>status_code = 200, content = csv, set_cookie = []\<rparr>)"

text \<open>The POST of a call, with the defaults of lines 51 to 55 filled in.\<close>

abbreviation posted ::
  "('u, 'f, 't) astropy \<Rightarrow> ('u, 'f) quantity \<Rightarrow> ('u, 'f) quantity
    \<Rightarrow> string option \<Rightarrow> string option \<Rightarrow> 'f request" where
  "posted lib ra dec opf opt \<equiv>
     submit_request (to_deg lib ra) (to_deg lib dec)
       (case opf of None \<Rightarrow> default_observing_period_from | Some s \<Rightarrow> s)
       (case opt of None \<Rightarrow> default_observing_period_to | Some s \<Rightarrow> s)"

text \<open>The session as it stands after the warm-up answer \<open>r0\<close> and the servlet's answer \<open>r\<close>.\<close>

abbreviation session_after :: "response \<Rightarrow> response \<Rightarrow> session" where
  "session_after r0 r \<equiv> receive r (receive r0 \<lparr>cookies = []\<rparr>)"

section \<open>The stages of a call\<close>

lemma request_methods:
  "rq_method (warmup_request :: 'f request) = GET"
  "rq_method (export_request i :: 'f request) = GET"
  "rq_method (submit_request a d f t) = POST"
  by (simp_all add: warmup_request_def export_request_def submit_request_def)

text \<open>The only POST a call ever sends is the one built at lines 62 to 80.\<close>

lemma posted_request:
  assumes "rq \<in> set (snd (forecast_position lib svc ra dec opf opt fo))"
    and "rq_method rq = POST"
  shows "rq = posted lib ra dec opf opt"
  using assms
  by (auto simp: forecast_position_def Let_def request_methods
           split: if_splits option.splits sum.splits prod.splits)

text \<open>The decorator stops the call before the body runs.\<close>

lemma units_rejected:
  assumes "\<not> is_equivalent_deg lib (q_unit ra) \<or> \<not> is_equivalent_deg lib (q_unit dec)"
  shows "forecast_position lib svc ra dec opf opt fo =
           (Inl (UnitsError (if is_equivalent_deg lib (q_unit ra) then ''dec'' else ''ra'')),
            [])"
  using assms by (auto simp: forecast_position_def)

text \<open>Everything from line 81 on, once the servlet has answered.\<close>

lemma after_submit:
  assumes "is_equivalent_deg lib (q_unit ra)" "is_equivalent_deg lib (q_unit dec)"
    and "svc [] warmup_request = Some r0"
    and "svc [warmup_request] (posted lib ra dec opf opt) = Some r"
  shows "forecast_position lib svc ra dec opf opt fo =
     (if \<not> ok r
      then (Inl (HTTPError (status_code r)), [warmup_request, posted lib ra dec opf opt])
      else case parse_result_id (content r) of
             Inl e \<Rightarrow> (Inl e, [warmup_request, posted lib ra dec opf opt])
           | Inr result_id \<Rightarrow>
         (case map_of (cookies (session_after r0 r)) ''JSESSIONID'' of
             None \<Rightarrow> (Inl (KeyError ''JSESSIONID''),
                       [warmup_request, posted lib ra dec opf opt])
           | Some sid \<Rightarrow>
         (case svc [warmup_request, posted lib ra dec opf opt]
                 (export_request (sid @ ''/'' @ result_id)) of
             None \<Rightarrow> (Inl RequestException,
                       [warmup_request, posted lib ra dec opf opt,
                        export_request (sid @ ''/'' @ result_id)])
           | Some result \<Rightarrow>
         (case table_read lib (content result) of
             None \<Rightarrow> (Inl TableReadError,
                       [warmup_request, posted lib ra dec opf opt,
                        export_request (sid @ ''/'' @ result_id)])
           | Some forecast \<Rightarrow>
               (Inr (if fo then FullOutput forecast (sid @ ''/'' @ result_id)
                                  (receive result (session_after r0 r))
                     else Forecast forecast),
                [warmup_request, posted lib ra dec opf opt,
                 export_request (sid @ ''/'' @ result_id)])))))"
  using assms
  by (simp add: forecast_position_def Let_def send_def split: option.splits sum.splits)

text \<open>With valid units and a warm-up that answers, the POST goes out.\<close>

lemma post_goes_out:
  assumes "is_equivalent_deg lib (q_unit ra)" "is_equivalent_deg lib (q_unit dec)"
    and "svc [] warmup_request = Some r0"
  shows "take 2 (snd (forecast_position lib svc ra dec opf opt fo)) =
           [warmup_request, posted lib ra dec opf opt]"
proof (cases "svc [warmup_request] (posted lib ra dec opf opt)")
  case None
  with assms show ?thesis
    by (simp add: forecast_position_def Let_def send_def)
next
  case (Some r)
  show ?thesis
    unfolding after_submit [OF assms Some]
    by (simp split: sum.splits option.splits)
qed

section \<open>Facts about the text of a bytes object\<close>

lemma repr_quote_cases: "repr_quote b = CHR 0x27 \<or> repr_quote b = CHR 0x22"
  by (simp add: repr_quote_def)

lemma repr_error_letters:
  assumes "q = CHR 0x27 \<or> q = CHR 0x22"
  shows "concat (map (repr_byte q) ''error'') = ''error''"
  using assms by (auto simp: repr_byte_def)

text \<open>The letters of the marker are never escaped, so the marker survives \<^verbatim>\<open>str\<close>.\<close>

lemma error_marker_survives:
  assumes "sublist ''error'' b"
  shows "sublist ''error'' (bytes_str b)"
proof -
  from assms obtain ps ss where b: "b = ps @ ''error'' @ ss"
    by (auto simp: sublist_def)
  define q where "q = repr_quote b"
  have q: "q = CHR 0x27 \<or> q = CHR 0x22"
    unfolding q_def by (rule repr_quote_cases)
  have "bytes_str b =
          (CHR ''b'' # q # concat (map (repr_byte q) ps)) @ ''error''
            @ (concat (map (repr_byte q) ss) @ [q])"
    unfolding bytes_str_def q_def [symmetric]
    by (simp only: b map_append concat_append repr_error_letters [OF q]) simp
  then show ?thesis
    by (simp only: sublist_appendI)
qed

section \<open>Concrete runs against the mocked service\<close>

lemma sample_units:
  "is_equivalent_deg sample_astropy Degree" "is_equivalent_deg sample_astropy Arcmin"
  "\<not> is_equivalent_deg sample_astropy Metre"
  by (simp_all add: sample_astropy_def)

lemma mock_service_answers:
  "mock_service status body csv sent warmup_request =
     Some \<lparr>status_code = 200, content = [], set_cookie = [(''JSESSIONID'', ''S1'')]\<rparr>"
  "mock_service status body csv sent (submit_request a d f t) =
     Some \<lparr>status_code = status, content = body, set_cookie = []\<rparr>"
  "mock_service status body csv sent (export_request i) =
     Some \<lparr>status_code = 200, content = csv, set_cookie = []\<rparr>"
  by (simp_all add: mock_service_def warmup_request_def submit_request_def export_request_def
        host_def)

lemma mock_run:
  assumes "is_equivalent_deg lib (q_unit ra)" "is_equivalent_deg lib (q_unit dec)"
  shows "forecast_position lib (mock_service status body csv) ra dec opf opt fo =
     (if \<not> (status < 400 \<or> 600 \<le> status)
      then (Inl (HTTPError status), [warmup_request, posted lib ra dec opf opt])
      else case parse_result_id body of
             Inl e \<Rightarrow> (Inl e, [warmup_request, posted lib ra dec opf opt])
           | Inr result_id \<Rightarrow>
         (case table_read lib csv of
             None \<Rightarrow> (Inl TableReadError,
                       [warmup_request, posted lib ra dec opf opt,
                        export_request (''S1/'' @ result_id)])
           | Some forecast \<Rightarrow>
               (Inr (if fo then FullOutput forecast (''S1/'' @ result_id)
                                  \<lparr>cookies = [(''JSESSIONID'', ''S1'')]\<rparr>
                     else Forecast forecast),
                [warmup_request, posted lib ra dec opf opt,
                 export_request (''S1/'' @ result_id)])))"
  unfolding after_submit [OF assms mock_service_answers(1) mock_service_answers(2)]
  by (simp add: ok_def mock_service_answers receive_def split: sum.splits option.splits)

lemma sample_csv:
  "mock_table_read ''a,b\<newline>1,2\<newline>'' =
     Some \<lparr>colnames = [''a'', ''b''], rows = [[IntCell 1, IntCell 2]]\<rparr>"
  by (simp add: mock_table_read_def)

lemma sample_bodies:
  "parse_result_id ''xxx xxx xxx 12345<br>'' = Inr ''12345''"
  "parse_result_id ''a b c d'' = Inr (''d'' @ [CHR 0x27])"
  "parse_result_id '' a b c'' = Inr (''c'' @ [CHR 0x27])"
  "parse_result_id ''error'' =
     Inl (AssertionError (''An error occurred: b'' @ [CHR 0x27] @ ''error'' @ [CHR 0x27]))"
  "parse_result_id ''a b c'' = Inl IndexError"
  by code_simp+

lemma sample_claimed:
  "claimed_result_id ''xxx xxx xxx 12345<br>'' = Some ''12345''"
  "claimed_result_id ''a b c d'' = Some ''d''"
  "claimed_result_id '' a b c'' = None"
  "claimed_result_id ''error'' = None"
  by code_simp+

lemma sample_run:
  assumes "q_unit ra \<noteq> Metre" "q_unit dec \<noteq> Metre"
  shows "forecast_position sample_astropy
           (mock_service 200 ''xxx xxx xxx 12345<br>'' ''a,b\<newline>1,2\<newline>'') ra dec opf opt fo =
         (Inr (if fo
               then FullOutput \<lparr>colnames = [''a'', ''b''], rows = [[IntCell 1, IntCell 2]]\<rparr>
                      ''S1/12345'' \<lparr>cookies = [(''JSESSIONID'', ''S1'')]\<rparr>
               else Forecast \<lparr>colnames = [''a'', ''b''], rows = [[IntCell 1, IntCell 2]]\<rparr>),
          [warmup_request, posted sample_astropy ra dec opf opt, export_request ''S1/12345''])"
proof -
  have u: "is_equivalent_deg sample_astropy (q_unit ra)"
    "is_equivalent_deg sample_astropy (q_unit dec)"
    using assms by (simp_all add: sample_astropy_def)
  have t: "table_read sample_astropy = mock_table_read"
    by (simp add: sample_astropy_def)
  show ?thesis
    unfolding mock_run [OF u] by (simp add: sample_bodies sample_csv t)
qed

text \<open>A call that gets past the warm-up sends exactly one POST.\<close>

lemma one_post:
  assumes "is_equivalent_deg lib (q_unit ra)" "is_equivalent_deg lib (q_unit dec)"
    and "svc [] warmup_request = Some r0"
  shows "filter (\<lambda>rq. rq_method rq = POST) (snd (forecast_position lib svc ra dec opf opt fo)) =
           [posted lib ra dec opf opt]"
proof (cases "svc [warmup_request] (posted lib ra dec opf opt)")
  case None
  with assms show ?thesis
    by (simp add: forecast_position_def Let_def send_def request_methods)
next
  case (Some r)
  show ?thesis
    unfolding after_submit [OF assms Some]
    by (simp add: request_methods split: sum.splits option.splits)
qed

section \<open>The scrape of line 89, for every body\<close>

text \<open>
  What line 89 and line 92 compute for any body that passes the checks of lines 81 to 86,
  in terms of the text \<^verbatim>\<open>str(r.content)\<close>.
\<close>

lemma scraped_identifier:
  assumes "is_equivalent_deg lib (q_unit ra)" "is_equivalent_deg lib (q_unit dec)"
    and "svc [] warmup_request = Some r0"
    and "svc [warmup_request] (posted lib ra dec opf opt) = Some r"
    and "ok r"
    and "\<not> sublist ''error'' (bytes_str (content r))"
    and "getitem (str_split (bytes_str (content r))) 3 = Some tok"
    and "map_of (cookies (session_after r0 r)) ''JSESSIONID'' = Some sid"
  shows "parse_result_id (content r) = Inr (before_first (CHR ''<'') tok)
    \<and> snd (forecast_position lib svc ra dec opf opt fo) =
        [warmup_request, posted lib ra dec opf opt,
         export_request (sid @ ''/'' @ before_first (CHR ''<'') tok)]
    \<and> (\<forall>res. fst (forecast_position lib svc ra dec opf opt True) = Inr res \<longrightarrow>
          (\<exists>t s. res = FullOutput t (sid @ ''/'' @ before_first (CHR ''<'') tok) s))"
proof -
  have p: "parse_result_id (content r) = Inr (before_first (CHR ''<'') tok)"
    using assms(6,7) by (simp add: parse_result_id_def)
  have t: "snd (forecast_position lib svc ra dec opf opt fo) =
        [warmup_request, posted lib ra dec opf opt,
         export_request (sid @ ''/'' @ before_first (CHR ''<'') tok)]"
    unfolding after_submit [OF assms(1-4)] using assms(5,8) p
    by (simp split: option.splits)
  have f: "\<forall>res. fst (forecast_position lib svc ra dec opf opt True) = Inr res \<longrightarrow>
          (\<exists>t s. res = FullOutput t (sid @ ''/'' @ before_first (CHR ''<'') tok) s)"
    unfolding after_submit [OF assms(1-4)] using assms(5,8) p
    by (auto split: option.splits)
  from p t f show ?thesis by blast
qed

text \<open>Line 89 raises IndexError when that text has fewer than four tokens.\<close>

lemma short_of_tokens:
  assumes "is_equivalent_deg lib (q_unit ra)" "is_equivalent_deg lib (q_unit dec)"
    and "svc [] warmup_request = Some r0"
    and "svc [warmup_request] (posted lib ra dec opf opt) = Some r"
    and "ok r"
    and "\<not> sublist ''error'' (bytes_str (content r))"
    and "length (str_split (bytes_str (content r))) < 4"
  shows "forecast_position lib svc ra dec opf opt fo =
           (Inl IndexError, [warmup_request, posted lib ra dec opf opt])
         \<and> taxonomy IndexError = Some ParseError"
proof -
  have "parse_result_id (content r) = Inl IndexError"
    using assms(6,7) by (simp add: parse_result_id_def getitem_def)
  then show ?thesis
    unfolding after_submit [OF assms(1-4)] using assms(5) by simp
qed

text \<open>
  When a call returns, and what: every step answered and passed, and the value is the table
  read from the export answer, alone or with the identifier of line 92 and the session.
\<close>

lemma returned_value:
  "(fst (forecast_position lib svc ra dec opf opt fo) = Inr res) =
     (\<exists>r0 r result sid rid t.
        is_equivalent_deg lib (q_unit ra) \<and> is_equivalent_deg lib (q_unit dec)
        \<and> svc [] warmup_request = Some r0
        \<and> svc [warmup_request] (posted lib ra dec opf opt) = Some r
        \<and> ok r
        \<and> parse_result_id (content r) = Inr rid
        \<and> map_of (cookies (session_after r0 r)) ''JSESSIONID'' = Some sid
        \<and> svc [warmup_request, posted lib ra dec opf opt]
              (export_request (sid @ ''/'' @ rid)) = Some result
        \<and> table_read lib (content result) = Some t
        \<and> res = (if fo then FullOutput t (sid @ ''/'' @ rid)
                              (receive result (session_after r0 r))
                  else Forecast t))"
proof (cases "is_equivalent_deg lib (q_unit ra) \<and> is_equivalent_deg lib (q_unit dec)")
  case False
  then have "\<not> is_equivalent_deg lib (q_unit ra) \<or> \<not> is_equivalent_deg lib (q_unit dec)"
    by blast
  from units_rejected [OF this] False show ?thesis
    by auto
next
  case True
  then have u: "is_equivalent_deg lib (q_unit ra)" "is_equivalent_deg lib (q_unit dec)"
    by blast+
  show ?thesis
  proof (cases "svc [] warmup_request")
    case None
    with u show ?thesis
      by (simp add: forecast_position_def Let_def send_def)
  next
    case w: (Some r0)
    show ?thesis
    proof (cases "svc [warmup_request] (posted lib ra dec opf opt)")
      case None
      with u w show ?thesis
        by (simp add: forecast_position_def Let_def send_def)
    next
      case s: (Some r)
      show ?thesis
        unfolding after_submit [OF u w s] using u w s
        by (auto split: sum.splits option.splits)
    qed
  qed
qed

section \<open>The claims\<close>

text \<open>
  Claim C1: the result identifier is the fourth whitespace-delimited token of the raw body,
  trimmed at the first \<^verbatim>\<open><\<close>, and the full identifier is the JSESSIONID cookie value, a
  slash and that result identifier. Line 89 splits \<^verbatim>\<open>str(r.content)\<close>, the text
  \<^verbatim>\<open>b'...'\<close> of the bytes, and so misses the token the claim names. For the body
  \<^verbatim>\<open>a b c d\<close> the fourth token is \<^verbatim>\<open>d\<close>, but the call takes \<^verbatim>\<open>d'\<close>, with the closing
  quote of the text, and sends and returns the identifier \<^verbatim>\<open>S1/d'\<close>. For a body of three
  lines whose fourth token is \<^verbatim>\<open>12345<br>\<close> the text has the line ends escaped and only
  two tokens, and line 89 raises IndexError.
\<close>

theorem result_id_keeps_quote:
  "claimed_result_id ''a b c d'' = Some ''d''
   \<and> forecast_position sample_astropy (mock_service 200 ''a b c d'' ''a,b\<newline>1,2\<newline>'')
        \<lparr>q_value = 34, q_unit = Degree\<rparr> \<lparr>q_value = - 13, q_unit = Degree\<rparr>
        None None True =
      (Inr (FullOutput \<lparr>colnames = [''a'', ''b''], rows = [[IntCell 1, IntCell 2]]\<rparr>
              (''S1/d'' @ [CHR 0x27]) \<lparr>cookies = [(''JSESSIONID'', ''S1'')]\<rparr>),
       [warmup_request,
        submit_request 34 (- 13) ''2014-09-26T00:00:00'' ''2019-06-07T00:00:00'',
        export_request (''S1/d'' @ [CHR 0x27])])
   \<and> claimed_result_id ''<html>\<newline><body>\<newline>Result: 12345<br>'' = Some ''12345''
   \<and> parse_result_id ''<html>\<newline><body>\<newline>Result: 12345<br>'' = Inl IndexError"
proof -
  have u: "is_equivalent_deg sample_astropy (q_unit \<lparr>q_value = 34 :: real, q_unit = Degree\<rparr>)"
    "is_equivalent_deg sample_astropy (q_unit \<lparr>q_value = - 13 :: real, q_unit = Degree\<rparr>)"
    by (simp_all add: sample_units)
  have t: "table_read sample_astropy = mock_table_read"
    by (simp add: sample_astropy_def)
  have h: "claimed_result_id ''<html>\<newline><body>\<newline>Result: 12345<br>'' = Some ''12345''"
    "parse_result_id ''<html>\<newline><body>\<newline>Result: 12345<br>'' = Inl IndexError"
    by code_simp+
  show ?thesis
    unfolding mock_run [OF u]
    by (simp add: sample_bodies sample_claimed sample_csv t h sample_astropy_def
          default_observing_period_from_def default_observing_period_to_def)
qed

text \<open>
  Claim C2. The mocked end-to-end scenario: RA 34.0 and Dec -13.0 in a unit the library
  accepts as angular, no period given, the servlet answering
  \<^verbatim>\<open>xxx xxx xxx 12345<br>\<close> with an OK status, the export answering the CSV
  \<^verbatim>\<open>a,b\n1,2\n\<close>, which the library's reader reads as the columns a, b and the single row
  (1, 2). The parsed result id is \<^verbatim>\<open>12345\<close> and the call returns that table. The mock
  must hand the session a JSESSIONID cookie, since line 92 reads it.
\<close>

theorem mocked_scenario:
  fixes lib :: "('u, real, csv_table) astropy"
  assumes "table_read lib ''a,b\<newline>1,2\<newline>'' =
             Some \<lparr>colnames = [''a'', ''b''], rows = [[IntCell 1, IntCell 2]]\<rparr>"
    and "is_equivalent_deg lib u"
    and "ra = \<lparr>q_value = 34, q_unit = u\<rparr>"
    and "dec = \<lparr>q_value = - 13, q_unit = u\<rparr>"
    and "svc [] warmup_request = Some r0"
    and "svc [warmup_request] (posted lib ra dec None None) = Some r"
    and "ok r"
    and "content r = ''xxx xxx xxx 12345<br>''"
    and "map_of (cookies (session_after r0 r)) ''JSESSIONID'' = Some sid"
    and "svc [warmup_request, posted lib ra dec None None] (export_request (sid @ ''/12345''))
           = Some result"
    and "content result = ''a,b\<newline>1,2\<newline>''"
  shows "parse_result_id (content r) = Inr ''12345''
    \<and> forecast_position lib svc ra dec None None fo =
        (Inr (if fo
              then FullOutput \<lparr>colnames = [''a'', ''b''], rows = [[IntCell 1, IntCell 2]]\<rparr>
                     (sid @ ''/12345'') (receive result (session_after r0 r))
              else Forecast \<lparr>colnames = [''a'', ''b''], rows = [[IntCell 1, IntCell 2]]\<rparr>),
         [warmup_request, posted lib ra dec None None, export_request (sid @ ''/12345'')])"
proof -
  have u: "is_equivalent_deg lib (q_unit ra)" "is_equivalent_deg lib (q_unit dec)"
    using assms(2,3,4) by simp_all
  have p: "parse_result_id (content r) = Inr ''12345''"
    by (simp only: assms(8) sample_bodies)
  have c: "table_read lib (content result) =
             Some \<lparr>colnames = [''a'', ''b''], rows = [[IntCell 1, IntCell 2]]\<rparr>"
    by (simp only: assms(1,11))
  show ?thesis
    unfolding after_submit [OF u assms(5,6)]
    using assms(7,9,10) p c by simp
qed

text \<open>
  The scenario on the mocked service of this file.
\<close>

theorem mocked_scenario_witness:
  "parse_result_id ''xxx xxx xxx 12345<br>'' = Inr ''12345''
   \<and> forecast_position sample_astropy
        (mock_service 200 ''xxx xxx xxx 12345<br>'' ''a,b\<newline>1,2\<newline>'')
        \<lparr>q_value = 34, q_unit = Degree\<rparr> \<lparr>q_value = - 13, q_unit = Degree\<rparr>
        None None False =
      (Inr (Forecast \<lparr>colnames = [''a'', ''b''], rows = [[IntCell 1, IntCell 2]]\<rparr>),
       [warmup_request,
        submit_request 34 (- 13) ''2014-09-26T00:00:00'' ''2019-06-07T00:00:00'',
        export_request ''S1/12345''])"
proof -
  let ?body = "''xxx xxx xxx 12345<br>''"
  let ?csv = "''a,b\<newline>1,2\<newline>''"
  let ?svc = "mock_service 200 ?body ?csv :: real service"
  let ?ra = "\<lparr>q_value = 34 :: real, q_unit = Degree\<rparr>"
  let ?dec = "\<lparr>q_value = - 13 :: real, q_unit = Degree\<rparr>"
  let ?wr = "\<lparr>status_code = 200, content = [], set_cookie = [(''JSESSIONID'', ''S1'')]\<rparr>"
  let ?r = "\<lparr>status_code = 200, content = ?body, set_cookie = []\<rparr>"
  let ?result = "\<lparr>status_code = 200, content = ?csv, set_cookie = []\<rparr>"
  have t: "table_read sample_astropy ?csv =
             Some \<lparr>colnames = [''a'', ''b''], rows = [[IntCell 1, IntCell 2]]\<rparr>"
    by (simp add: sample_astropy_def mock_table_read_def)
  have u: "is_equivalent_deg sample_astropy Degree"
    by (rule sample_units)
  have w: "?svc [] warmup_request = Some ?wr"
    by (rule mock_service_answers)
  have s: "?svc [warmup_request] (posted sample_astropy ?ra ?dec None None) = Some ?r"
    by (rule mock_service_answers)
  have k: "ok ?r"
    by (simp add: ok_def)
  have c: "map_of (cookies (session_after ?wr ?r)) ''JSESSIONID'' = Some ''S1''"
    by (simp add: receive_def)
  have x: "?svc [warmup_request, posted sample_astropy ?ra ?dec None None]
             (export_request (''S1'' @ ''/12345'')) = Some ?result"
    by (rule mock_service_answers)
  have b: "content ?r = ?body" "content ?result = ?csv"
    by simp_all
  from mocked_scenario [OF t u refl refl w s k b(1) c x b(2), of False] show ?thesis
    by (simp add: sample_astropy_def default_observing_period_from_def
          default_observing_period_to_def)
qed

text \<open>
  Claim C3. When the body of the servlet's answer contains \<^verbatim>\<open>error\<close>, the call raises an
  exception of the kind RemoteServiceError and sends no export request, so no table is
  returned; with an OK status the exception is the AssertionError of line 85.
\<close>

theorem error_marker_raises:
  assumes "is_equivalent_deg lib (q_unit ra)" "is_equivalent_deg lib (q_unit dec)"
    and "svc [] warmup_request = Some r0"
    and "svc [warmup_request] (posted lib ra dec opf opt) = Some r"
    and "sublist ''error'' (content r)"
  shows "\<exists>e. forecast_position lib svc ra dec opf opt fo =
                (Inl e, [warmup_request, posted lib ra dec opf opt])
           \<and> taxonomy e = Some RemoteServiceError
           \<and> (ok r \<longrightarrow> e = AssertionError (''An error occurred: '' @ bytes_str (content r)))"
proof -
  have "sublist ''error'' (bytes_str (content r))"
    using assms(5) by (rule error_marker_survives)
  then have "parse_result_id (content r) =
               Inl (AssertionError (''An error occurred: '' @ bytes_str (content r)))"
    by (simp add: parse_result_id_def)
  then show ?thesis
    unfolding after_submit [OF assms(1-4)] by simp
qed

text \<open>
  A body \<^verbatim>\<open>error\<close> with status 200.
\<close>

theorem error_marker_raises_witness:
  "forecast_position sample_astropy (mock_service 200 ''error'' [])
       \<lparr>q_value = 34, q_unit = Degree\<rparr> \<lparr>q_value = - 13, q_unit = Degree\<rparr> None None False
     = (Inl (AssertionError (''An error occurred: b'' @ [CHR 0x27] @ ''error'' @ [CHR 0x27])),
        [warmup_request,
         submit_request 34 (- 13) ''2014-09-26T00:00:00'' ''2019-06-07T00:00:00''])"
proof -
  let ?ra = "\<lparr>q_value = 34 :: real, q_unit = Degree\<rparr>"
  let ?dec = "\<lparr>q_value = - 13 :: real, q_unit = Degree\<rparr>"
  let ?r = "\<lparr>status_code = 200, content = ''error'', set_cookie = []\<rparr>"
  have u: "is_equivalent_deg sample_astropy (q_unit ?ra)"
    "is_equivalent_deg sample_astropy (q_unit ?dec)"
    by (simp_all add: sample_units)
  have w: "mock_service 200 ''error'' [] [] (warmup_request :: real request) =
             Some \<lparr>status_code = 200, content = [], set_cookie = [(''JSESSIONID'', ''S1'')]\<rparr>"
    by (rule mock_service_answers)
  have s: "mock_service 200 ''error'' [] [warmup_request]
             (posted sample_astropy ?ra ?dec None None) = Some ?r"
    by (rule mock_service_answers)
  have m: "sublist ''error'' (content ?r)"
    by simp
  have k: "ok ?r"
    by (simp add: ok_def)
  have b: "bytes_str ''error'' = ''b'' @ [CHR 0x27] @ ''error'' @ [CHR 0x27]"
    by code_simp
  from error_marker_raises [OF u w s m, of False] k b show ?thesis
    by (auto simp: sample_astropy_def default_observing_period_from_def
          default_observing_period_to_def)
qed

text \<open>
  Claim C4: a body with no fourth whitespace-delimited token makes the call raise
  ParseError. Line 89 splits \<^verbatim>\<open>str(r.content)\<close>, the text \<^verbatim>\<open>b'...'\<close> of the bytes, where
  the prefix \<^verbatim>\<open>b'\<close> is a token of its own when the body starts with a space. The body
  \<^verbatim>\<open> a b c\<close> has three tokens and no fourth, yet the call raises nothing: it takes
  \<^verbatim>\<open>c'\<close> for the result identifier, asks the export for \<^verbatim>\<open>S1/c'\<close> and returns a table.
\<close>

theorem leading_space_makes_fourth_token:
  "claimed_result_id '' a b c'' = None
   \<and> forecast_position sample_astropy (mock_service 200 '' a b c'' ''a,b\<newline>1,2\<newline>'')
        \<lparr>q_value = 34, q_unit = Degree\<rparr> \<lparr>q_value = - 13, q_unit = Degree\<rparr>
        None None False =
      (Inr (Forecast \<lparr>colnames = [''a'', ''b''], rows = [[IntCell 1, IntCell 2]]\<rparr>),
       [warmup_request,
        submit_request 34 (- 13) ''2014-09-26T00:00:00'' ''2019-06-07T00:00:00'',
        export_request (''S1/c'' @ [CHR 0x27])])"
proof -
  have u: "is_equivalent_deg sample_astropy (q_unit \<lparr>q_value = 34 :: real, q_unit = Degree\<rparr>)"
    "is_equivalent_deg sample_astropy (q_unit \<lparr>q_value = - 13 :: real, q_unit = Degree\<rparr>)"
    by (simp_all add: sample_units)
  have t: "table_read sample_astropy = mock_table_read"
    by (simp add: sample_astropy_def)
  show ?thesis
    unfolding mock_run [OF u]
    by (simp add: sample_bodies sample_claimed sample_csv t sample_astropy_def
          default_observing_period_from_def default_observing_period_to_def)
qed

text \<open>
  Claim C5. When \<^verbatim>\<open>observation_period_from\<close> is omitted the \<^verbatim>\<open>from\<close> field of the
  submitted form is \<^verbatim>\<open>2014-09-26T00:00:00\<close>, and when \<^verbatim>\<open>observation_period_to\<close> is omitted
  the \<^verbatim>\<open>to\<close> field is \<^verbatim>\<open>2019-06-07T00:00:00\<close>.
\<close>

theorem default_period_submitted:
  "(\<forall>rq \<in> set (snd (forecast_position lib svc ra dec None opt fo)).
      rq_method rq = POST \<longrightarrow> map_of (rq_data rq) ''from'' = Some (StrV ''2014-09-26T00:00:00''))
   \<and> (\<forall>rq \<in> set (snd (forecast_position lib svc ra dec opf None fo)).
      rq_method rq = POST \<longrightarrow> map_of (rq_data rq) ''to'' = Some (StrV ''2019-06-07T00:00:00''))"
proof (intro conjI ballI impI)
  fix rq assume "rq \<in> set (snd (forecast_position lib svc ra dec None opt fo))"
    and "rq_method rq = POST"
  then have "rq = posted lib ra dec None opt" by (rule posted_request)
  then show "map_of (rq_data rq) ''from'' = Some (StrV ''2014-09-26T00:00:00'')"
    by (simp add: submit_request_def default_observing_period_from_def)
next
  fix rq assume "rq \<in> set (snd (forecast_position lib svc ra dec opf None fo))"
    and "rq_method rq = POST"
  then have "rq = posted lib ra dec opf None" by (rule posted_request)
  then show "map_of (rq_data rq) ''to'' = Some (StrV ''2019-06-07T00:00:00'')"
    by (simp add: submit_request_def default_observing_period_to_def)
qed

text \<open>
  The sample run sends a POST, and it carries both defaults.
\<close>

theorem default_period_submitted_witness:
  "rq_method (snd (forecast_position sample_astropy
        (mock_service 200 ''xxx xxx xxx 12345<br>'' ''a,b\<newline>1,2\<newline>'')
        \<lparr>q_value = 34, q_unit = Degree\<rparr> \<lparr>q_value = - 13, q_unit = Degree\<rparr>
        None None False) ! 1) = POST
   \<and> map_of (rq_data (snd (forecast_position sample_astropy
        (mock_service 200 ''xxx xxx xxx 12345<br>'' ''a,b\<newline>1,2\<newline>'')
        \<lparr>q_value = 34, q_unit = Degree\<rparr> \<lparr>q_value = - 13, q_unit = Degree\<rparr>
        None None False) ! 1)) ''from'' = Some (StrV ''2014-09-26T00:00:00'')
   \<and> map_of (rq_data (snd (forecast_position sample_astropy
        (mock_service 200 ''xxx xxx xxx 12345<br>'' ''a,b\<newline>1,2\<newline>'')
        \<lparr>q_value = 34, q_unit = Degree\<rparr> \<lparr>q_value = - 13, q_unit = Degree\<rparr>
        None None False) ! 1)) ''to'' = Some (StrV ''2019-06-07T00:00:00'')"
proof -
  let ?svc = "mock_service 200 ''xxx xxx xxx 12345<br>'' ''a,b\<newline>1,2\<newline>'' :: real service"
  let ?ra = "\<lparr>q_value = 34 :: real, q_unit = Degree\<rparr>"
  let ?dec = "\<lparr>q_value = - 13 :: real, q_unit = Degree\<rparr>"
  let ?tr = "snd (forecast_position sample_astropy ?svc ?ra ?dec None None False)"
  have tr: "?tr = [warmup_request, posted sample_astropy ?ra ?dec None None,
                   export_request ''S1/12345'']"
    by (simp add: sample_run)
  have mem: "?tr ! 1 \<in> set ?tr"
    by (simp add: tr)
  have post: "rq_method (?tr ! 1) = POST"
    by (simp add: tr request_methods)
  note inst = default_period_submitted
    [where lib = sample_astropy and svc = ?svc and ra = ?ra and dec = ?dec
       and opf = None and opt = None and fo = False]
  from inst mem post show ?thesis
    by blast
qed

text \<open>
  Claim C6. The \<^verbatim>\<open>srcra\<close> and \<^verbatim>\<open>srcdec\<close> fields of the submitted form are the input
  right ascension and declination converted to degrees by the library, whatever unit they
  carried.
\<close>

theorem degrees_submitted:
  "\<forall>rq \<in> set (snd (forecast_position lib svc ra dec opf opt fo)).
      rq_method rq = POST \<longrightarrow>
        map_of (rq_data rq) ''srcra'' = Some (FloatV (to_deg lib ra))
        \<and> map_of (rq_data rq) ''srcdec'' = Some (FloatV (to_deg lib dec))"
proof (intro ballI impI)
  fix rq assume "rq \<in> set (snd (forecast_position lib svc ra dec opf opt fo))"
    and "rq_method rq = POST"
  then have "rq = posted lib ra dec opf opt" by (rule posted_request)
  then show "map_of (rq_data rq) ''srcra'' = Some (FloatV (to_deg lib ra))
        \<and> map_of (rq_data rq) ''srcdec'' = Some (FloatV (to_deg lib dec))"
    by (simp add: submit_request_def)
qed

text \<open>
  2040 arc minutes are submitted as 34 degrees.
\<close>

theorem degrees_submitted_witness:
  "rq_method (snd (forecast_position sample_astropy
        (mock_service 200 ''xxx xxx xxx 12345<br>'' ''a,b\<newline>1,2\<newline>'')
        \<lparr>q_value = 2040, q_unit = Arcmin\<rparr> \<lparr>q_value = - 13, q_unit = Degree\<rparr>
        None None False) ! 1) = POST
   \<and> map_of (rq_data (snd (forecast_position sample_astropy
        (mock_service 200 ''xxx xxx xxx 12345<br>'' ''a,b\<newline>1,2\<newline>'')
        \<lparr>q_value = 2040, q_unit = Arcmin\<rparr> \<lparr>q_value = - 13, q_unit = Degree\<rparr>
        None None False) ! 1)) ''srcra'' = Some (FloatV 34)
   \<and> map_of (rq_data (snd (forecast_position sample_astropy
        (mock_service 200 ''xxx xxx xxx 12345<br>'' ''a,b\<newline>1,2\<newline>'')
        \<lparr>q_value = 2040, q_unit = Arcmin\<rparr> \<lparr>q_value = - 13, q_unit = Degree\<rparr>
        None None False) ! 1)) ''srcdec'' = Some (FloatV (- 13))"
proof -
  let ?svc = "mock_service 200 ''xxx xxx xxx 12345<br>'' ''a,b\<newline>1,2\<newline>'' :: real service"
  let ?ra = "\<lparr>q_value = 2040 :: real, q_unit = Arcmin\<rparr>"
  let ?dec = "\<lparr>q_value = - 13 :: real, q_unit = Degree\<rparr>"
  let ?tr = "snd (forecast_position sample_astropy ?svc ?ra ?dec None None False)"
  have tr: "?tr = [warmup_request, posted sample_astropy ?ra ?dec None None,
                   export_request ''S1/12345'']"
    by (simp add: sample_run)
  have mem: "?tr ! 1 \<in> set ?tr"
    by (simp add: tr)
  have post: "rq_method (?tr ! 1) = POST"
    by (simp add: tr request_methods)
  have conv: "to_deg sample_astropy ?ra = 34" "to_deg sample_astropy ?dec = - 13"
    by (simp_all add: sample_astropy_def)
  note inst = degrees_submitted
    [where lib = sample_astropy and svc = ?svc and ra = ?ra and dec = ?dec
       and opf = None and opt = None and fo = False]
  from inst mem post have
    "map_of (rq_data (?tr ! 1)) ''srcra'' = Some (FloatV (to_deg sample_astropy ?ra))
     \<and> map_of (rq_data (?tr ! 1)) ''srcdec'' = Some (FloatV (to_deg sample_astropy ?dec))"
    by blast
  with post show ?thesis
    by (simp only: conv) 
qed

text \<open>
  Claim C7. A call with \<^verbatim>\<open>full_output\<close> true returns exactly when every step is answered
  and passes, and then it returns the triple of the table read from the export answer,
  the identifier made of the session's JSESSIONID cookie value, a slash and the parsed
  result id, and the session the requests went through. A call with \<^verbatim>\<open>full_output\<close>
  false returns under the same conditions, and returns that table alone.
\<close>

theorem full_output_shapes:
  "((fst (forecast_position lib svc ra dec opf opt True) = Inr res1) =
     (\<exists>r0 r result sid rid t.
        is_equivalent_deg lib (q_unit ra) \<and> is_equivalent_deg lib (q_unit dec)
        \<and> svc [] warmup_request = Some r0
        \<and> svc [warmup_request] (posted lib ra dec opf opt) = Some r
        \<and> ok r
        \<and> parse_result_id (content r) = Inr rid
        \<and> map_of (cookies (session_after r0 r)) ''JSESSIONID'' = Some sid
        \<and> svc [warmup_request, posted lib ra dec opf opt]
              (export_request (sid @ ''/'' @ rid)) = Some result
        \<and> table_read lib (content result) = Some t
        \<and> res1 = FullOutput t (sid @ ''/'' @ rid) (receive result (session_after r0 r))))
   \<and> ((fst (forecast_position lib svc ra dec opf opt False) = Inr res2) =
     (\<exists>r0 r result sid rid t.
        is_equivalent_deg lib (q_unit ra) \<and> is_equivalent_deg lib (q_unit dec)
        \<and> svc [] warmup_request = Some r0
        \<and> svc [warmup_request] (posted lib ra dec opf opt) = Some r
        \<and> ok r
        \<and> parse_result_id (content r) = Inr rid
        \<and> map_of (cookies (session_after r0 r)) ''JSESSIONID'' = Some sid
        \<and> svc [warmup_request, posted lib ra dec opf opt]
              (export_request (sid @ ''/'' @ rid)) = Some result
        \<and> table_read lib (content result) = Some t
        \<and> res2 = Forecast t))"
  using returned_value [of lib svc ra dec opf opt True res1]
    returned_value [of lib svc ra dec opf opt False res2]
  by simp

text \<open>
  Both shapes on the sample run.
\<close>

theorem full_output_shapes_witness:
  "fst (forecast_position sample_astropy
        (mock_service 200 ''xxx xxx xxx 12345<br>'' ''a,b\<newline>1,2\<newline>'')
        \<lparr>q_value = 34, q_unit = Degree\<rparr> \<lparr>q_value = - 13, q_unit = Degree\<rparr>
        None None True) =
     Inr (FullOutput \<lparr>colnames = [''a'', ''b''], rows = [[IntCell 1, IntCell 2]]\<rparr>
            ''S1/12345'' \<lparr>cookies = [(''JSESSIONID'', ''S1'')]\<rparr>)
   \<and> fst (forecast_position sample_astropy
        (mock_service 200 ''xxx xxx xxx 12345<br>'' ''a,b\<newline>1,2\<newline>'')
        \<lparr>q_value = 34, q_unit = Degree\<rparr> \<lparr>q_value = - 13, q_unit = Degree\<rparr>
        None None False) =
     Inr (Forecast \<lparr>colnames = [''a'', ''b''], rows = [[IntCell 1, IntCell 2]]\<rparr>)"
proof -
  let ?body = "''xxx xxx xxx 12345<br>''"
  let ?csv = "''a,b\<newline>1,2\<newline>''"
  let ?svc = "mock_service 200 ?body ?csv :: real service"
  let ?ra = "\<lparr>q_value = 34 :: real, q_unit = Degree\<rparr>"
  let ?dec = "\<lparr>q_value = - 13 :: real, q_unit = Degree\<rparr>"
  let ?wr = "\<lparr>status_code = 200, content = [], set_cookie = [(''JSESSIONID'', ''S1'')]\<rparr>"
  let ?r = "\<lparr>status_code = 200, content = ?body, set_cookie = []\<rparr>"
  let ?result = "\<lparr>status_code = 200, content = ?csv, set_cookie = []\<rparr>"
  let ?T = "\<lparr>colnames = [''a'', ''b''], rows = [[IntCell 1, IntCell 2]]\<rparr>"
  let ?sess = "\<lparr>cookies = [(''JSESSIONID'', ''S1'')]\<rparr>"
  have u: "is_equivalent_deg sample_astropy (q_unit ?ra)"
    "is_equivalent_deg sample_astropy (q_unit ?dec)"
    by (simp_all add: sample_units)
  have w: "?svc [] warmup_request = Some ?wr"
    by (rule mock_service_answers)
  have s: "?svc [warmup_request] (posted sample_astropy ?ra ?dec None None) = Some ?r"
    by (rule mock_service_answers)
  have k: "ok ?r"
    by (simp add: ok_def)
  have p: "parse_result_id (content ?r) = Inr ''12345''"
    by (simp add: sample_bodies)
  have c: "map_of (cookies (session_after ?wr ?r)) ''JSESSIONID'' = Some ''S1''"
    by (simp add: receive_def)
  have x: "?svc [warmup_request, posted sample_astropy ?ra ?dec None None]
             (export_request (''S1'' @ ''/'' @ ''12345'')) = Some ?result"
    by (rule mock_service_answers)
  have t: "table_read sample_astropy (content ?result) = Some ?T"
    by (simp add: sample_astropy_def mock_table_read_def)
  have e: "FullOutput ?T ''S1/12345'' ?sess =
             FullOutput ?T (''S1'' @ ''/'' @ ''12345'') (receive ?result (session_after ?wr ?r))"
    by (simp add: receive_def)
  have f: "Forecast ?T = Forecast ?T"
    by (rule refl)
  note inst = full_output_shapes
    [where lib = sample_astropy and svc = ?svc and ra = ?ra and dec = ?dec
       and opf = None and opt = None
       and ?res1.0 = "FullOutput ?T ''S1/12345'' ?sess" and ?res2.0 = "Forecast ?T"]
  from u w s k p c x t e have full:
    "fst (forecast_position sample_astropy ?svc ?ra ?dec None None True) =
       Inr (FullOutput ?T ''S1/12345'' ?sess)"
    by (intro inst [THEN conjunct1, THEN iffD2] exI conjI)
  from u w s k p c x t f have bare:
    "fst (forecast_position sample_astropy ?svc ?ra ?dec None None False) = Inr (Forecast ?T)"
    by (intro inst [THEN conjunct2, THEN iffD2] exI conjI)
  from full bare show ?thesis by (rule conjI)
qed

text \<open>
  Claim C8. When the unit of \<^verbatim>\<open>ra\<close> or of \<^verbatim>\<open>dec\<close> is not equivalent to degrees, the call
  raises UnitsError, an InvalidInput in the specification's terms, and no request has been
  sent.
\<close>

theorem invalid_units_fail_first:
  assumes "\<not> is_equivalent_deg lib (q_unit ra) \<or> \<not> is_equivalent_deg lib (q_unit dec)"
  shows "\<exists>arg. forecast_position lib svc ra dec opf opt fo = (Inl (UnitsError arg), [])
           \<and> taxonomy (UnitsError arg) = Some InvalidInput"
  using units_rejected [OF assms] by simp

text \<open>
  A declination in metres.
\<close>

theorem invalid_units_fail_first_witness:
  "\<exists>arg. forecast_position sample_astropy (mock_service 200 [] [])
            \<lparr>q_value = 34, q_unit = Degree\<rparr> \<lparr>q_value = 1, q_unit = Metre\<rparr> None None False
          = (Inl (UnitsError arg), [])
        \<and> taxonomy (UnitsError arg) = Some InvalidInput"
proof -
  have h: "\<not> is_equivalent_deg sample_astropy (q_unit \<lparr>q_value = 34::real, q_unit = Degree\<rparr>)
         \<or> \<not> is_equivalent_deg sample_astropy (q_unit \<lparr>q_value = 1::real, q_unit = Metre\<rparr>)"
    by (simp add: sample_units)
  show ?thesis
    by (rule invalid_units_fail_first [OF h])
qed

text \<open>
  Claim C9. Every POST of a call goes to the servlet with the form fields serviceCode 1,
  an empty srcname, inputmode single, srcra and srcdec in degrees and the from and to
  strings, in this order, with the headers cache and processData both false and the empty
  file part csvfilename, which makes the request multipart. A call with valid units whose
  warm-up is answered sends exactly one such POST.
\<close>

theorem submission_form:
  "(\<forall>rq \<in> set (snd (forecast_position lib svc ra dec opf opt fo)).
      rq_method rq = POST \<longrightarrow>
        rq_url rq = ''https://gaia.esac.esa.int/gost/GostServlet''
        \<and> rq_data rq =
            [(''serviceCode'', IntV 1),
             (''srcname'', StrV ''''),
             (''inputmode'', StrV ''single''),
             (''srcra'', FloatV (to_deg lib ra)),
             (''srcdec'', FloatV (to_deg lib dec)),
             (''from'', StrV (case opf of None \<Rightarrow> ''2014-09-26T00:00:00'' | Some s \<Rightarrow> s)),
             (''to'', StrV (case opt of None \<Rightarrow> ''2019-06-07T00:00:00'' | Some s \<Rightarrow> s))]
        \<and> rq_headers rq = [(''cache'', ''false''), (''processData'', ''false'')]
        \<and> rq_files rq = [(''csvfilename'', '''')]
        \<and> is_multipart rq)
   \<and> (is_equivalent_deg lib (q_unit ra) \<and> is_equivalent_deg lib (q_unit dec)
        \<and> svc [] warmup_request \<noteq> None \<longrightarrow>
      length (filter (\<lambda>rq. rq_method rq = POST)
                (snd (forecast_position lib svc ra dec opf opt fo))) = 1)"
proof (intro conjI ballI impI)
  fix rq assume "rq \<in> set (snd (forecast_position lib svc ra dec opf opt fo))"
    and "rq_method rq = POST"
  then have rq: "rq = posted lib ra dec opf opt" by (rule posted_request)
  show "rq_url rq = ''https://gaia.esac.esa.int/gost/GostServlet''"
    by (simp add: rq submit_request_def host_def)
  show "rq_data rq =
            [(''serviceCode'', IntV 1),
             (''srcname'', StrV ''''),
             (''inputmode'', StrV ''single''),
             (''srcra'', FloatV (to_deg lib ra)),
             (''srcdec'', FloatV (to_deg lib dec)),
             (''from'', StrV (case opf of None \<Rightarrow> ''2014-09-26T00:00:00'' | Some s \<Rightarrow> s)),
             (''to'', StrV (case opt of None \<Rightarrow> ''2019-06-07T00:00:00'' | Some s \<Rightarrow> s))]"
    by (simp add: rq submit_request_def default_observing_period_from_def
          default_observing_period_to_def split: option.splits)
  show "rq_headers rq = [(''cache'', ''false''), (''processData'', ''false'')]"
    by (simp add: rq submit_request_def)
  show "rq_files rq = [(''csvfilename'', '''')]"
    by (simp add: rq submit_request_def)
  show "is_multipart rq"
    by (simp add: rq submit_request_def is_multipart_def)
next
  assume "is_equivalent_deg lib (q_unit ra) \<and> is_equivalent_deg lib (q_unit dec)
        \<and> svc [] warmup_request \<noteq> None"
  then obtain r0 where "is_equivalent_deg lib (q_unit ra)" "is_equivalent_deg lib (q_unit dec)"
    "svc [] warmup_request = Some r0"
    by auto
  then show "length (filter (\<lambda>rq. rq_method rq = POST)
                (snd (forecast_position lib svc ra dec opf opt fo))) = 1"
    by (simp add: one_post)
qed

text \<open>
  The form of the sample run.
\<close>

theorem submission_form_witness:
  "rq_method (snd (forecast_position sample_astropy
        (mock_service 200 ''xxx xxx xxx 12345<br>'' ''a,b\<newline>1,2\<newline>'')
        \<lparr>q_value = 34, q_unit = Degree\<rparr> \<lparr>q_value = - 13, q_unit = Degree\<rparr>
        None None False) ! 1) = POST
   \<and> rq_data (snd (forecast_position sample_astropy
        (mock_service 200 ''xxx xxx xxx 12345<br>'' ''a,b\<newline>1,2\<newline>'')
        \<lparr>q_value = 34, q_unit = Degree\<rparr> \<lparr>q_value = - 13, q_unit = Degree\<rparr>
        None None False) ! 1) =
       [(''serviceCode'', IntV 1),
        (''srcname'', StrV ''''),
        (''inputmode'', StrV ''single''),
        (''srcra'', FloatV 34),
        (''srcdec'', FloatV (- 13)),
        (''from'', StrV ''2014-09-26T00:00:00''),
        (''to'', StrV ''2019-06-07T00:00:00'')]
   \<and> is_multipart (snd (forecast_position sample_astropy
        (mock_service 200 ''xxx xxx xxx 12345<br>'' ''a,b\<newline>1,2\<newline>'')
        \<lparr>q_value = 34, q_unit = Degree\<rparr> \<lparr>q_value = - 13, q_unit = Degree\<rparr>
        None None False) ! 1)
   \<and> length (filter (\<lambda>rq. rq_method rq = POST) (snd (forecast_position sample_astropy
        (mock_service 200 ''xxx xxx xxx 12345<br>'' ''a,b\<newline>1,2\<newline>'')
        \<lparr>q_value = 34, q_unit = Degree\<rparr> \<lparr>q_value = - 13, q_unit = Degree\<rparr>
        None None False))) = 1"
proof -
  let ?svc = "mock_service 200 ''xxx xxx xxx 12345<br>'' ''a,b\<newline>1,2\<newline>'' :: real service"
  let ?ra = "\<lparr>q_value = 34 :: real, q_unit = Degree\<rparr>"
  let ?dec = "\<lparr>q_value = - 13 :: real, q_unit = Degree\<rparr>"
  let ?tr = "snd (forecast_position sample_astropy ?svc ?ra ?dec None None False)"
  have tr: "?tr = [warmup_request, posted sample_astropy ?ra ?dec None None,
                   export_request ''S1/12345'']"
    by (simp add: sample_run)
  have mem: "?tr ! 1 \<in> set ?tr"
    by (simp add: tr)
  have post: "rq_method (?tr ! 1) = POST"
    by (simp add: tr request_methods)
  have pre: "is_equivalent_deg sample_astropy (q_unit ?ra)
        \<and> is_equivalent_deg sample_astropy (q_unit ?dec)
        \<and> ?svc [] warmup_request \<noteq> None"
    by (simp add: sample_units mock_service_answers)
  have conv: "to_deg sample_astropy ?ra = 34" "to_deg sample_astropy ?dec = - 13"
    by (simp_all add: sample_astropy_def)
  note inst = submission_form
    [where lib = sample_astropy and svc = ?svc and ra = ?ra and dec = ?dec
       and opf = None and opt = None and fo = False]
  from inst mem post have
    "rq_data (?tr ! 1) =
       [(''serviceCode'', IntV 1),
        (''srcname'', StrV ''''),
        (''inputmode'', StrV ''single''),
        (''srcra'', FloatV (to_deg sample_astropy ?ra)),
        (''srcdec'', FloatV (to_deg sample_astropy ?dec)),
        (''from'', StrV (case None of None \<Rightarrow> ''2014-09-26T00:00:00'' | Some s \<Rightarrow> s)),
        (''to'', StrV (case None of None \<Rightarrow> ''2019-06-07T00:00:00'' | Some s \<Rightarrow> s))]
     \<and> is_multipart (?tr ! 1)"
    by blast
  moreover from inst pre have
    "length (filter (\<lambda>rq. rq_method rq = POST) ?tr) = 1"
    by blast
  ultimately show ?thesis
    using post by (simp only: conv option.case)
qed

text \<open>
  Claim C10. Two calls that differ only in \<^verbatim>\<open>full_output\<close> send the same requests in the
  same order and end alike: the same exception, or the same table.
\<close>

theorem full_output_shape_only:
  "snd (forecast_position lib svc ra dec opf opt True) =
     snd (forecast_position lib svc ra dec opf opt False)
   \<and> map_sum id table_of (fst (forecast_position lib svc ra dec opf opt True)) =
     map_sum id table_of (fst (forecast_position lib svc ra dec opf opt False))"
  by (simp add: forecast_position_def Let_def split: option.splits sum.splits prod.splits)

text \<open>
  The sample run under both flags.
\<close>

theorem full_output_shape_only_witness:
  "snd (forecast_position sample_astropy
        (mock_service 200 ''xxx xxx xxx 12345<br>'' ''a,b\<newline>1,2\<newline>'')
        \<lparr>q_value = 34, q_unit = Degree\<rparr> \<lparr>q_value = - 13, q_unit = Degree\<rparr>
        None None True) =
   snd (forecast_position sample_astropy
        (mock_service 200 ''xxx xxx xxx 12345<br>'' ''a,b\<newline>1,2\<newline>'')
        \<lparr>q_value = 34, q_unit = Degree\<rparr> \<lparr>q_value = - 13, q_unit = Degree\<rparr>
        None None False)
   \<and> map_sum id table_of (fst (forecast_position sample_astropy
        (mock_service 200 ''xxx xxx xxx 12345<br>'' ''a,b\<newline>1,2\<newline>'')
        \<lparr>q_value = 34, q_unit = Degree\<rparr> \<lparr>q_value = - 13, q_unit = Degree\<rparr>
        None None True)) =
     map_sum id table_of (fst (forecast_position sample_astropy
        (mock_service 200 ''xxx xxx xxx 12345<br>'' ''a,b\<newline>1,2\<newline>'')
        \<lparr>q_value = 34, q_unit = Degree\<rparr> \<lparr>q_value = - 13, q_unit = Degree\<rparr>
        None None False))
   \<and> map_sum id table_of (fst (forecast_position sample_astropy
        (mock_service 200 ''xxx xxx xxx 12345<br>'' ''a,b\<newline>1,2\<newline>'')
        \<lparr>q_value = 34, q_unit = Degree\<rparr> \<lparr>q_value = - 13, q_unit = Degree\<rparr>
        None None False)) =
     Inr \<lparr>colnames = [''a'', ''b''], rows = [[IntCell 1, IntCell 2]]\<rparr>"
proof -
  let ?svc = "mock_service 200 ''xxx xxx xxx 12345<br>'' ''a,b\<newline>1,2\<newline>'' :: real service"
  let ?ra = "\<lparr>q_value = 34 :: real, q_unit = Degree\<rparr>"
  let ?dec = "\<lparr>q_value = - 13 :: real, q_unit = Degree\<rparr>"
  have plain: "map_sum id table_of
                 (fst (forecast_position sample_astropy ?svc ?ra ?dec None None False)) =
               Inr \<lparr>colnames = [''a'', ''b''], rows = [[IntCell 1, IntCell 2]]\<rparr>"
    by (simp add: sample_run)
  note inst = full_output_shape_only
    [where lib = sample_astropy and svc = ?svc and ra = ?ra and dec = ?dec
       and opf = None and opt = None]
  from inst plain show ?thesis
    by blast
qed

end
